theory Spec2Isabelle
  imports Complex_Main
begin

section \<open>Machine integers, time and the random source\<close>

text \<open>
  Go's \<open>int\<close>, \<open>int64\<close> and \<open>time.Duration\<close> are 64-bit two's complement values.
  They are modelled as \<open>int\<close>, and every arithmetic result is passed through
  \<open>wrap64\<close>, which is the wrap-around of the machine.
\<close>

definition wrap64 :: "int \<Rightarrow> int" where
  "wrap64 x = (x + 2 ^ 63) mod 2 ^ 64 - 2 ^ 63"

definition wrap32 :: "int \<Rightarrow> int" where
  "wrap32 x = (x + 2 ^ 31) mod 2 ^ 32 - 2 ^ 31"

datatype weekday = Sunday | Monday | Tuesday | Wednesday | Thursday | Friday | Saturday

text \<open>
  A \<open>time.Time\<close> value, by the accessors the program reads: \<open>Year()\<close>,
  \<open>YearDay()\<close>, \<open>Hour()\<close>, \<open>Weekday()\<close>, and the instant in nanoseconds
  that \<open>time.Since\<close> subtracts.
\<close>

record gotime =
  Year :: int
  YearDay :: int
  Hour :: int
  Weekday :: weekday
  Nanos :: int

text \<open>\<open>time.Since(t)\<close> is \<open>Now().Sub(t)\<close>; \<open>Sub\<close> saturates at the ends of int64.\<close>

definition Since :: "gotime \<Rightarrow> gotime \<Rightarrow> int" where
  "Since now t =
     (let d = Nanos now - Nanos t in
      if d > 2 ^ 63 - 1 then 2 ^ 63 - 1
      else if d < - (2 ^ 63) then - (2 ^ 63)
      else d)"

datatype error =
    Panic string
  | IOError

text \<open>
  \<open>*rand.Rand\<close> is a stateful generator. Its state is the stream of the raw values it
  will hand out; every call consumes the head of the stream. \<open>Intn\<close> and \<open>Int63n\<close>
  panic on a bound that is not positive, and otherwise return a value in \<open>[0, n)\<close>;
  \<open>Float64\<close> returns a value in \<open>[0, 1)\<close> with 53 bits.
\<close>

type_synonym rng = "nat \<Rightarrow> nat"

definition rng_next :: "rng \<Rightarrow> rng" where
  "rng_next g = (\<lambda>i. g (Suc i))"

definition Intn :: "rng \<Rightarrow> int \<Rightarrow> error + (int \<times> rng)" where
  "Intn g n =
     (if n \<le> 0 then Inl (Panic ''invalid argument to Intn'')
      else Inr (int (g 0) mod n, rng_next g))"

definition Int63n :: "rng \<Rightarrow> int \<Rightarrow> error + (int \<times> rng)" where
  "Int63n g n =
     (if n \<le> 0 then Inl (Panic ''invalid argument to Int63n'')
      else Inr (int (g 0) mod n, rng_next g))"

definition Float64 :: "rng \<Rightarrow> real \<times> rng" where
  "Float64 g = (real (g 0 mod 2 ^ 53) / 2 ^ 53, rng_next g)"

section \<open>Configuration (config/config.go)\<close>

record LinkedInConfig =
  Email :: string
  Password :: string

record StealthConfig =
  MouseSpeedMin :: real
  MouseSpeedMax :: real
  MouseOvershoot :: bool
  MouseMicroCorrect :: bool
  TypingDelayMin :: int
  TypingDelayMax :: int
  TypingMistakeRate :: real
  ScrollSpeedMin :: int
  ScrollSpeedMax :: int
  ScrollBackChance :: real
  ActionDelayMin :: int
  ActionDelayMax :: int
  PageLoadWaitMin :: int
  PageLoadWaitMax :: int
  RandomizeViewport :: bool
  DisableWebdriver :: bool
  RandomUserAgent :: bool

record RateLimitConfig =
  MaxConnectionsPerDay :: int
  MaxMessagesPerDay :: int
  MaxProfileViewsPerDay :: int
  MaxSearchesPerHour :: int
  CooldownMinutes :: int
  MinDelayBetweenActions :: int
  MaxDelayBetweenActions :: int

record LoggingConfig =
  Level :: string
  Format :: string
  OutputFile :: string
  MaxSizeMB :: int
  MaxBackups :: int

record ScheduleConfig =
  Enabled :: bool
  StartHour :: int
  EndHour :: int
  WorkDaysOnly :: bool
  BreakMinMin :: int
  BreakMinMax :: int
  SessionMaxMin :: int
  Timezone :: string

text \<open>
  \<open>Config\<close>, with the sections that \<open>Validate\<close> and the behaviour engine read. The
  browser, search, messaging and storage sections are plain data that no function
  modelled here inspects.
\<close>

record Config =
  LinkedIn :: LinkedInConfig
  Stealth :: StealthConfig
  RateLimits :: RateLimitConfig
  Logging :: LoggingConfig
  Schedule :: ScheduleConfig

definition DefaultConfig :: Config where
  "DefaultConfig =
     \<lparr> LinkedIn = \<lparr> Email = '''', Password = '''' \<rparr>,
       Stealth = \<lparr> MouseSpeedMin = 0.5, MouseSpeedMax = 2.0,
         MouseOvershoot = True, MouseMicroCorrect = True,
         TypingDelayMin = 50, TypingDelayMax = 200, TypingMistakeRate = 0.02,
         ScrollSpeedMin = 100, ScrollSpeedMax = 400, ScrollBackChance = 0.15,
         ActionDelayMin = 500, ActionDelayMax = 2000,
         PageLoadWaitMin = 1000, PageLoadWaitMax = 3000,
         RandomizeViewport = True, DisableWebdriver = True, RandomUserAgent = True \<rparr>,
       RateLimits = \<lparr> MaxConnectionsPerDay = 25, MaxMessagesPerDay = 50,
         MaxProfileViewsPerDay = 100, MaxSearchesPerHour = 10, CooldownMinutes = 5,
         MinDelayBetweenActions = 2000, MaxDelayBetweenActions = 5000 \<rparr>,
       Logging = \<lparr> Level = ''info'', Format = ''json'',
         OutputFile = ''./logs/automation.log'', MaxSizeMB = 100, MaxBackups = 5 \<rparr>,
       Schedule = \<lparr> Enabled = True, StartHour = 9, EndHour = 18, WorkDaysOnly = True,
         BreakMinMin = 5, BreakMinMax = 15, SessionMaxMin = 120, Timezone = ''Local'' \<rparr> \<rparr>"

datatype config_error =
    EmailRequired
  | PasswordRequired
  | MaxConnectionsRange
  | MaxMessagesRange
  | StartHourRange
  | EndHourRange
  | InvalidLogLevel string
  | ReadFailed
  | ParseFailed
  | ValidationFailed config_error

text \<open>\<open>Config.Validate\<close>: the checks of the source, in the source's order.\<close>

definition validLevels :: "string \<Rightarrow> bool" where
  "validLevels l = (l = ''debug'' \<or> l = ''info'' \<or> l = ''warn'' \<or> l = ''error'')"

definition Validate :: "Config \<Rightarrow> config_error + unit" where
  "Validate c =
     (if Email (LinkedIn c) = '''' then Inl EmailRequired
      else if Password (LinkedIn c) = '''' then Inl PasswordRequired
      else if MaxConnectionsPerDay (RateLimits c) < 0 \<or> MaxConnectionsPerDay (RateLimits c) > 100
        then Inl MaxConnectionsRange
      else if MaxMessagesPerDay (RateLimits c) < 0 \<or> MaxMessagesPerDay (RateLimits c) > 150
        then Inl MaxMessagesRange
      else if StartHour (Schedule c) < 0 \<or> StartHour (Schedule c) > 23
        then Inl StartHourRange
      else if EndHour (Schedule c) < 0 \<or> EndHour (Schedule c) > 23
        then Inl EndHourRange
      else if \<not> validLevels (Level (Logging c)) then Inl (InvalidLogLevel (Level (Logging c)))
      else Inr ())"

text \<open>
  \<open>strconv.Atoi\<close>: an optional sign, then decimal digits only, and the value must fit
  64 bits.
\<close>

definition is_digit :: "char \<Rightarrow> bool" where
  "is_digit c = (48 \<le> (of_char c :: nat) \<and> (of_char c :: nat) \<le> 57)"

definition digits_value :: "string \<Rightarrow> int" where
  "digits_value ds = foldl (\<lambda>acc c. acc * 10 + (int (of_char c) - 48)) 0 ds"

definition Atoi :: "string \<Rightarrow> int option" where
  "Atoi s =
     (case s of
        [] \<Rightarrow> None
      | c # cs \<Rightarrow>
          (let neg = (c = CHR ''-'');
               ds = (if c = CHR ''+'' \<or> c = CHR ''-'' then cs else s)
           in if ds = [] \<or> \<not> list_all is_digit ds then None
              else (let v = (if neg then - digits_value ds else digits_value ds)
                    in if v < - (2 ^ 63) \<or> v > 2 ^ 63 - 1 then None else Some v)))"

text \<open>
  \<open>applyEnvOverrides\<close>: the environment is the function \<open>os.Getenv\<close>, which is the
  empty string on a variable that is not set. The overrides of the sections left out of
  \<open>Config\<close> (browser, storage) have no counterpart here.
\<close>

definition applyEnvOverrides :: "(string \<Rightarrow> string) \<Rightarrow> Config \<Rightarrow> Config" where
  "applyEnvOverrides getenv c =
     (let c1 = (if getenv ''LINKEDIN_EMAIL'' \<noteq> ''''
                then c\<lparr>LinkedIn := (LinkedIn c)\<lparr>Email := getenv ''LINKEDIN_EMAIL''\<rparr>\<rparr> else c);
          c2 = (if getenv ''LINKEDIN_PASSWORD'' \<noteq> ''''
                then c1\<lparr>LinkedIn := (LinkedIn c1)\<lparr>Password := getenv ''LINKEDIN_PASSWORD''\<rparr>\<rparr>
                else c1);
          c3 = (if getenv ''MAX_CONNECTIONS_PER_DAY'' \<noteq> ''''
                then (case Atoi (getenv ''MAX_CONNECTIONS_PER_DAY'') of
                        Some v \<Rightarrow> c2\<lparr>RateLimits := (RateLimits c2)\<lparr>MaxConnectionsPerDay := v\<rparr>\<rparr>
                      | None \<Rightarrow> c2)
                else c2);
          c4 = (if getenv ''MAX_MESSAGES_PER_DAY'' \<noteq> ''''
                then (case Atoi (getenv ''MAX_MESSAGES_PER_DAY'') of
                        Some v \<Rightarrow> c3\<lparr>RateLimits := (RateLimits c3)\<lparr>MaxMessagesPerDay := v\<rparr>\<rparr>
                      | None \<Rightarrow> c3)
                else c3);
          c5 = (if getenv ''LOG_LEVEL'' \<noteq> ''''
                then c4\<lparr>Logging := (Logging c4)\<lparr>Level := getenv ''LOG_LEVEL''\<rparr>\<rparr> else c4);
          c6 = (if getenv ''LOG_FORMAT'' \<noteq> ''''
                then c5\<lparr>Logging := (Logging c5)\<lparr>Format := getenv ''LOG_FORMAT''\<rparr>\<rparr> else c5)
      in c6)"

text \<open>
  \<open>LoadConfig\<close>. What the file system and the YAML parser deliver is an input: no path
  given or no such file (the defaults stay), a read error, a parse error, or the
  defaults overwritten by the file's content.
\<close>

datatype file_outcome = NoFile | ReadError | ParseError | Parsed Config

definition LoadConfig :: "file_outcome \<Rightarrow> (string \<Rightarrow> string) \<Rightarrow> config_error + Config" where
  "LoadConfig file getenv =
     (case file of
        ReadError \<Rightarrow> Inl ReadFailed
      | ParseError \<Rightarrow> Inl ParseFailed
      | _ \<Rightarrow>
          (let config = applyEnvOverrides getenv
                 (case file of Parsed c \<Rightarrow> c | _ \<Rightarrow> DefaultConfig)
           in case Validate config of
                Inl err \<Rightarrow> Inl (ValidationFailed err)
              | Inr _ \<Rightarrow> Inr config))"

section \<open>Activity scheduling (stealth/stealth.go, technique 7)\<close>

text \<open>\<open>Scheduler.IsWithinOperatingHours\<close>, with the result of \<open>time.Now()\<close> as an input.\<close>

definition IsWithinOperatingHours :: "ScheduleConfig \<Rightarrow> gotime \<Rightarrow> bool" where
  "IsWithinOperatingHours cfg now =
     (if \<not> Enabled cfg then True
      else if WorkDaysOnly cfg \<and> (Weekday now = Saturday \<or> Weekday now = Sunday) then False
      else if Hour now < StartHour cfg \<or> Hour now \<ge> EndHour cfg then False
      else True)"

section \<open>Rate limiting (stealth/stealth.go, technique 8)\<close>

record RateLimiter =
  rl_config :: RateLimitConfig
  actionCounts :: "string \<rightharpoonup> int"
  lastReset :: gotime
  lastAction :: gotime
  rl_rand :: rng

text \<open>Reading a Go map at a key it does not hold gives the zero value.\<close>

definition count_of :: "(string \<rightharpoonup> int) \<Rightarrow> string \<Rightarrow> int" where
  "count_of m k = (case m k of None \<Rightarrow> 0 | Some v \<Rightarrow> v)"

definition NewRateLimiter :: "RateLimitConfig \<Rightarrow> gotime \<Rightarrow> gotime \<Rightarrow> rng \<Rightarrow> RateLimiter" where
  "NewRateLimiter cfg tReset tAction g =
     \<lparr> rl_config = cfg, actionCounts = Map.empty, lastReset = tReset,
       lastAction = tAction, rl_rand = g \<rparr>"

definition checkReset :: "gotime \<Rightarrow> RateLimiter \<Rightarrow> RateLimiter" where
  "checkReset now r =
     (let r1 = (if YearDay now \<noteq> YearDay (lastReset r) \<or> Year now \<noteq> Year (lastReset r)
                then r\<lparr> actionCounts :=
                          (actionCounts r)(''connection'' \<mapsto> 0, ''message'' \<mapsto> 0,
                                           ''profile_view'' \<mapsto> 0),
                        lastReset := now \<rparr>
                else r)
      in if Hour now \<noteq> Hour (lastReset r1)
         then r1\<lparr> actionCounts := (actionCounts r1)(''search'' \<mapsto> 0) \<rparr>
         else r1)"

definition CanPerformAction :: "string \<Rightarrow> gotime \<Rightarrow> RateLimiter \<Rightarrow> bool \<times> RateLimiter" where
  "CanPerformAction actionType now r =
     (let r' = checkReset now r;
          limit =
            (if actionType = ''connection'' then Some (MaxConnectionsPerDay (rl_config r'))
             else if actionType = ''message'' then Some (MaxMessagesPerDay (rl_config r'))
             else if actionType = ''profile_view'' then Some (MaxProfileViewsPerDay (rl_config r'))
             else if actionType = ''search'' then Some (MaxSearchesPerHour (rl_config r'))
             else None)
      in case limit of
           None \<Rightarrow> (True, r')
         | Some l \<Rightarrow>
             (if count_of (actionCounts r') actionType \<ge> l then (False, r') else (True, r')))"

definition RecordAction :: "string \<Rightarrow> gotime \<Rightarrow> RateLimiter \<Rightarrow> RateLimiter" where
  "RecordAction actionType now r =
     r\<lparr> actionCounts :=
          (actionCounts r)(actionType \<mapsto> wrap64 (count_of (actionCounts r) actionType + 1)),
        lastAction := now \<rparr>"

text \<open>
  \<open>WaitForNextAction\<close> returns how long it sleeps, in nanoseconds (0 when it does not
  sleep), or the panic of \<open>Int63n\<close>.
\<close>

definition WaitForNextAction :: "gotime \<Rightarrow> RateLimiter \<Rightarrow> error + (int \<times> RateLimiter)" where
  "WaitForNextAction now r =
     (let elapsed = Since now (lastAction r);
          minDelay = wrap64 (MinDelayBetweenActions (rl_config r) * 1000000);
          maxDelay = wrap64 (MaxDelayBetweenActions (rl_config r) * 1000000)
      in case Int63n (rl_rand r) (wrap64 (maxDelay - minDelay)) of
           Inl e \<Rightarrow> Inl e
         | Inr (k, g') \<Rightarrow>
             (let targetDelay = wrap64 (minDelay + k)
              in Inr (if elapsed < targetDelay then wrap64 (targetDelay - elapsed) else 0,
                      r\<lparr> rl_rand := g' \<rparr>)))"

text \<open>\<open>EnforceCooldown\<close> sleeps for the configured minutes; it returns the nanoseconds.\<close>

definition EnforceCooldown :: "RateLimiter \<Rightarrow> int" where
  "EnforceCooldown r = wrap64 (CooldownMinutes (rl_config r) * 60000000000)"

definition GetRemainingActions :: "string \<Rightarrow> gotime \<Rightarrow> RateLimiter \<Rightarrow> int \<times> RateLimiter" where
  "GetRemainingActions actionType now r =
     (let r' = checkReset now r;
          limit =
            (if actionType = ''connection'' then Some (MaxConnectionsPerDay (rl_config r'))
             else if actionType = ''message'' then Some (MaxMessagesPerDay (rl_config r'))
             else if actionType = ''profile_view'' then Some (MaxProfileViewsPerDay (rl_config r'))
             else if actionType = ''search'' then Some (MaxSearchesPerHour (rl_config r'))
             else None)
      in case limit of
           None \<Rightarrow> (999, r')
         | Some l \<Rightarrow> (wrap64 (l - count_of (actionCounts r') actionType), r'))"

section \<open>Fingerprint masking (stealth/stealth.go, technique 3)\<close>

text \<open>
  The conversion \<open>string(rune(x))\<close> yields the UTF-8 encoding of the code point
  \<open>x\<close>, and of U+FFFD for a value that is no valid code point.
\<close>

definition string_of_rune :: "int \<Rightarrow> string" where
  "string_of_rune r =
     (if r < 0 \<or> r > 1114111 \<or> (55296 \<le> r \<and> r \<le> 57343)
        then [char_of (239::int), char_of (191::int), char_of (189::int)]
      else if r < 128 then [char_of r]
      else if r < 2048 then [char_of (192 + r div 64), char_of (128 + r mod 64)]
      else if r < 65536
        then [char_of (224 + r div 4096), char_of (128 + (r div 64) mod 64),
              char_of (128 + r mod 64)]
      else [char_of (240 + r div 262144), char_of (128 + (r div 4096) mod 64),
            char_of (128 + (r div 64) mod 64), char_of (128 + r mod 64)])"

definition cores :: "int list" where
  "cores = [4, 8, 12, 16]"

text \<open>\<open>randomHardwareConcurrency\<close>: \<open>string(rune('0' + cores[s.rand.Intn(len(cores))]))\<close>.\<close>

definition randomHardwareConcurrency :: "rng \<Rightarrow> error + (string \<times> rng)" where
  "randomHardwareConcurrency g =
     (case Intn g (int (length cores)) of
        Inl e \<Rightarrow> Inl e
      | Inr (i, g') \<Rightarrow> Inr (string_of_rune (wrap32 (48 + cores ! nat i)), g'))"

text \<open>
  The script of \<open>ApplyFingerprintMasking\<close> that masks the hardware concurrency: the
  string of \<open>randomHardwareConcurrency\<close> is spliced into the getter (the line breaks
  and the indentation of the template are left out).
\<close>

definition hardwareConcurrencyScript :: "rng \<Rightarrow> error + (string \<times> rng)" where
  "hardwareConcurrencyScript g =
     (case randomHardwareConcurrency g of
        Inl e \<Rightarrow> Inl e
      | Inr (v, g') \<Rightarrow>
          Inr (''Object.defineProperty(navigator, 'hardwareConcurrency', { get: () => ''
                 @ v @ '' });'', g'))"

section \<open>Typing simulation (stealth/stealth.go, technique 5)\<close>

text \<open>Sequencing of steps that may panic or fail: the first error ends the run.\<close>

definition ebind :: "error + 'a \<Rightarrow> ('a \<Rightarrow> error + 'b) \<Rightarrow> error + 'b" where
  "ebind m f = (case m of Inl e \<Rightarrow> Inl e | Inr x \<Rightarrow> f x)"

text \<open>
  What the typing simulator does to the page, in order. A rune stands for the string
  \<open>string(rune)\<close> that \<open>element.Input\<close> receives; the two constructors for
  \<open>Input\<close> tell the two call sites apart (the wrong character of a simulated mistake,
  and the character of the text). \<open>Sleep\<close> carries nanoseconds.
\<close>

datatype event =
    WrongInput int
  | PressBackspace
  | CorrectInput int
  | Sleep int

definition adjacentKeys :: "(char \<times> string) list" where
  "adjacentKeys =
     [(CHR ''a'', ''sqz''), (CHR ''b'', ''vngh''), (CHR ''c'', ''xvdf''),
      (CHR ''d'', ''sfercx''), (CHR ''e'', ''wrds''), (CHR ''f'', ''dgrtvc''),
      (CHR ''g'', ''fhtybv''), (CHR ''h'', ''gjyunb''), (CHR ''i'', ''uokj''),
      (CHR ''j'', ''hkuimn''), (CHR ''k'', ''jliom''), (CHR ''l'', ''kop''),
      (CHR ''m'', ''njk''), (CHR ''n'', ''bmhj''), (CHR ''o'', ''ipkl''),
      (CHR ''p'', ''ol''), (CHR ''q'', ''wa''), (CHR ''r'', ''etdf''),
      (CHR ''s'', ''adwezx''), (CHR ''t'', ''ryfg''), (CHR ''u'', ''yihj''),
      (CHR ''v'', ''cbfg''), (CHR ''w'', ''qeas''), (CHR ''x'', ''zcsd''),
      (CHR ''y'', ''tugh''), (CHR ''z'', ''ax'')]"

definition rune_of :: "char \<Rightarrow> int" where
  "rune_of c = int (of_char c)"

text \<open>The lookup \<open>adjacentKeys[lowerChar]\<close> on runes.\<close>

definition adjacent_of :: "int \<Rightarrow> int list option" where
  "adjacent_of r = map_of (map (\<lambda>(c, s). (rune_of c, map rune_of s)) adjacentKeys) r"

definition getAdjacentKey :: "rng \<Rightarrow> int \<Rightarrow> error + (int \<times> rng)" where
  "getAdjacentKey g char =
     (let lowerChar = (if char \<ge> 65 \<and> char \<le> 90 then wrap32 (char + 32) else char)
      in case adjacent_of lowerChar of
           Some adjacent \<Rightarrow>
             ebind (Intn g (int (length adjacent)))
               (\<lambda>(k, g').
                  Inr (if char \<ge> 65 \<and> char \<le> 90 then wrap32 (adjacent ! nat k - 32)
                       else adjacent ! nat k, g'))
         | None \<Rightarrow> Inr (char, g))"

text \<open>
  The outcomes of the successive \<open>element.Input\<close> calls are an input, a stream like
  the generator's: \<open>True\<close> for a call that succeeds. The result of
  \<open>page.Keyboard.Press\<close> is discarded by the source.
\<close>

type_synonym effector = "nat \<Rightarrow> bool"

definition effector_next :: "effector \<Rightarrow> effector" where
  "effector_next io = (\<lambda>i. io (Suc i))"

text \<open>
  The branch "Simulate typing mistakes" of the loop body. It returns the events it
  emitted.
\<close>

definition simulateMistake ::
  "StealthConfig \<Rightarrow> int \<Rightarrow> rng \<Rightarrow> effector \<Rightarrow> error + (event list \<times> rng \<times> effector)" where
  "simulateMistake cfg char g io =
     (if TypingMistakeRate cfg > 0
      then (let (f, g1) = Float64 g
            in if f < TypingMistakeRate cfg
               then ebind (getAdjacentKey g1 char)
                      (\<lambda>(wrongChar, g2).
                         if \<not> io 0 then Inl IOError
                         else ebind (Intn g2 200)
                                (\<lambda>(a, g3).
                                   ebind (Intn g3 100)
                                     (\<lambda>(b, g4).
                                        Inr ([WrongInput wrongChar,
                                              Sleep (wrap64 (wrap64 (100 + a) * 1000000)),
                                              PressBackspace,
                                              Sleep (wrap64 (wrap64 (50 + b) * 1000000))],
                                             g4, effector_next io))))
               else Inr ([], g1, io))
      else Inr ([], g, io))"

text \<open>
  \<open>HumanType\<close> on the runes of the text (\<open>runes := []rune(text)\<close>): the loop over
  the runes, one equation for the exit and one for the body.
\<close>

fun HumanType ::
  "StealthConfig \<Rightarrow> int list \<Rightarrow> rng \<Rightarrow> effector \<Rightarrow> error + (event list \<times> rng \<times> effector)" where
  "HumanType cfg [] g io = Inr ([], g, io)"
| "HumanType cfg (char # rest) g io =
     ebind (Intn g (wrap64 (TypingDelayMax cfg - TypingDelayMin cfg)))
       (\<lambda>(d, g1).
          let (f, g2) = Float64 g1
          in ebind (if f < 0.05
                    then ebind (Intn g2 400)
                           (\<lambda>(x, g3).
                              Inr (wrap64 (wrap64 (TypingDelayMin cfg + d) + wrap64 (200 + x)), g3))
                    else Inr (wrap64 (TypingDelayMin cfg + d), g2))
               (\<lambda>(delay, g3).
                  ebind (simulateMistake cfg char g3 io)
                    (\<lambda>(mistake, g4, io1).
                       if \<not> io1 0 then Inl IOError
                       else ebind (HumanType cfg rest g4 (effector_next io1))
                              (\<lambda>(events, g', io').
                                 Inr (mistake
                                        @ [CorrectInput char, Sleep (wrap64 (delay * 1000000))]
                                        @ events, g', io')))))"

text \<open>
  The state of the generator when the loop body reaches its mistake draw: the body has
  drawn the delay (\<open>Intn\<close>), the thinking draw (\<open>Float64\<close>) and, when that one
  is below 0.05, the extra delay (\<open>Intn\<close>).
\<close>

definition mistake_draw_state :: "rng \<Rightarrow> rng" where
  "mistake_draw_state g =
     (let (f, g2) = Float64 (rng_next g) in if f < 0.05 then rng_next g2 else g2)"

text \<open>The characters of the text that a run typed, in order, and its deletions.\<close>

fun correct_inputs :: "event list \<Rightarrow> int list" where
  "correct_inputs [] = []"
| "correct_inputs (CorrectInput c # es) = c # correct_inputs es"
| "correct_inputs (_ # es) = correct_inputs es"

text \<open>
  The simulated mistakes of a run: the wrong character typed, paired with the character
  of the text that follows its deletion.
\<close>

fun mistakes_of :: "event list \<Rightarrow> (int \<times> int) list" where
  "mistakes_of (WrongInput w # Sleep a # PressBackspace # Sleep b # CorrectInput c # es) =
     (w, c) # mistakes_of es"
| "mistakes_of (_ # es) = mistakes_of es"
| "mistakes_of [] = []"

text \<open>A character that has no entry in the adjacency table, after the fold to lower case.\<close>

definition outside_table :: "int \<Rightarrow> bool" where
  "outside_table char =
     (adjacent_of (if char \<ge> 65 \<and> char \<le> 90 then wrap32 (char + 32) else char) = None)"

section \<open>Mouse movement (stealth/stealth.go, technique 1)\<close>

subsection \<open>float64\<close>

text \<open>
  A finite float64 is the real number it denotes. \<open>fl\<close> rounds a real number to the
  nearest binary64 value, ties to even: at the exponent \<open>e\<close> of the argument (not
  below -1022, where the subnormal numbers start) the values are the multiples of
  \<open>2 powi (e - 52)\<close>. Every arithmetic operation of the program on float64 yields the
  rounded exact result. Overflow to infinity and NaN have no counterpart: the model
  speaks for runs that stay in the finite range, as screen coordinates do.
\<close>

definition round_even :: "real \<Rightarrow> int" where
  "round_even r =
     (let f = \<lfloor>r\<rfloor>
      in if r - real_of_int f < 1 / 2 then f
         else if r - real_of_int f > 1 / 2 then f + 1
         else if even f then f else f + 1)"

definition fl :: "real \<Rightarrow> real" where
  "fl x =
     (if x = 0 then 0
      else (let e = max \<lfloor>log 2 \<bar>x\<bar>\<rfloor> (- 1022);
                q = 2 powi (e - 52)
            in real_of_int (round_even (x / q)) * q))"

definition fadd :: "real \<Rightarrow> real \<Rightarrow> real" where
  "fadd a b = fl (a + b)"

definition fsub :: "real \<Rightarrow> real \<Rightarrow> real" where
  "fsub a b = fl (a - b)"

definition fmul :: "real \<Rightarrow> real \<Rightarrow> real" where
  "fmul a b = fl (a * b)"

definition fdiv :: "real \<Rightarrow> real \<Rightarrow> real" where
  "fdiv a b = fl (a / b)"


subsection \<open>The path\<close>

record Point =
  X :: real
  Y :: real

text \<open>\<open>cubicBezier\<close>, with the products and sums in the order Go evaluates them.\<close>

definition cubicBezier :: "real \<Rightarrow> Point \<Rightarrow> Point \<Rightarrow> Point \<Rightarrow> Point \<Rightarrow> Point" where
  "cubicBezier t p0 p1 p2 p3 =
     (let u = fsub 1 t;
          tt = fmul t t;
          uu = fmul u u;
          uuu = fmul uu u;
          ttt = fmul tt t
      in \<lparr> X = fadd (fadd (fadd (fmul uuu (X p0)) (fmul (fmul (fmul 3 uu) t) (X p1)))
                          (fmul (fmul (fmul 3 u) tt) (X p2)))
                    (fmul ttt (X p3)),
            Y = fadd (fadd (fadd (fmul uuu (Y p0)) (fmul (fmul (fmul 3 uu) t) (Y p1)))
                          (fmul (fmul (fmul 3 u) tt) (Y p2)))
                    (fmul ttt (Y p3)) \<rparr>)"

definition randomSign :: "rng \<Rightarrow> real \<times> rng" where
  "randomSign g = (let (f, g') = Float64 g in (if f < 0.5 then - 1 else 1, g'))"

text \<open>
  \<open>addOvershoot\<close>: the overshoot point, then the correction loop, whose step \<open>i\<close>
  appends the point at \<open>t = float64(i+1) / float64(correctionSteps)\<close>.
\<close>

definition addOvershoot ::
  "rng \<Rightarrow> Point list \<Rightarrow> real \<Rightarrow> real \<Rightarrow> error + (Point list \<times> rng)" where
  "addOvershoot g points targetX targetY =
     (let (f1, g1) = Float64 g;
          (signX, g2) = randomSign g1;
          overshootX = fmul (fadd (fmul f1 10) 5) signX;
          (f2, g3) = Float64 g2;
          (signY, g4) = randomSign g3;
          overshootY = fmul (fadd (fmul f2 10) 5) signY;
          overshootPoint = \<lparr> X = fadd targetX overshootX, Y = fadd targetY overshootY \<rparr>
      in ebind (Intn g4 3)
           (\<lambda>(k, g5).
              let correctionSteps = wrap64 (3 + k)
              in Inr (points @ [overshootPoint]
                      @ map (\<lambda>i. let t = fdiv (fl (real_of_int (wrap64 (int i + 1))))
                                               (fl (real_of_int correctionSteps))
                                  in \<lparr> X = fadd (X overshootPoint)
                                             (fmul (fsub targetX (X overshootPoint)) t),
                                       Y = fadd (Y overshootPoint)
                                             (fmul (fsub targetY (Y overshootPoint)) t) \<rparr>)
                          [0 ..< nat correctionSteps],
                      g5)))"

subsection \<open>The delay between two steps\<close>


section \<open>Concrete inputs\<close>

definition wed_9h :: gotime where
  "wed_9h = \<lparr> Year = 2024, YearDay = 10, Hour = 9, Weekday = Wednesday, Nanos = 0 \<rparr>"

definition wed_10h :: gotime where
  "wed_10h = \<lparr> Year = 2024, YearDay = 10, Hour = 10, Weekday = Wednesday,
      Nanos = 3900000000000 \<rparr>"

definition wed_23h :: gotime where
  "wed_23h = \<lparr> Year = 2024, YearDay = 10, Hour = 23, Weekday = Wednesday,
      Nanos = 52200000000000 \<rparr>"

text \<open>The configurations of \<open>TestRateLimiter\<close> and \<open>TestScheduler\<close>.\<close>

definition test_limits :: RateLimitConfig where
  "test_limits = \<lparr> MaxConnectionsPerDay = 5, MaxMessagesPerDay = 10,
      MaxProfileViewsPerDay = 20, MaxSearchesPerHour = 3, CooldownMinutes = 1,
      MinDelayBetweenActions = 100, MaxDelayBetweenActions = 200 \<rparr>"

definition test_schedule :: ScheduleConfig where
  "test_schedule = \<lparr> Enabled = True, StartHour = 0, EndHour = 23, WorkDaysOnly = False,
      BreakMinMin = 1, BreakMinMax = 2, SessionMaxMin = 120, Timezone = [] \<rparr>"

text \<open>The default configuration with credentials, and variants of its delay bounds.\<close>

definition with_credentials :: "Config \<Rightarrow> Config" where
  "with_credentials c = c\<lparr> LinkedIn := \<lparr> Email = ''user@example.com'', Password = ''secret'' \<rparr> \<rparr>"

definition equal_delays :: Config where
  "equal_delays =
     (with_credentials DefaultConfig)
       \<lparr> RateLimits := (RateLimits DefaultConfig)\<lparr> MaxDelayBetweenActions := 2000 \<rparr> \<rparr>"

definition inverted_delays :: Config where
  "inverted_delays =
     (with_credentials DefaultConfig)
       \<lparr> RateLimits := (RateLimits DefaultConfig)
            \<lparr> MinDelayBetweenActions := 5000, MaxDelayBetweenActions := 2000 \<rparr>,
         Stealth := (Stealth DefaultConfig)
            \<lparr> TypingDelayMin := 200, TypingDelayMax := 50 \<rparr> \<rparr>"

definition zero_rng :: rng where
  "zero_rng = (\<lambda>_. 0)"

definition draw2 :: rng where
  "draw2 = (\<lambda>_. 2)"

text \<open>The limits of \<open>TestRateLimiter\<close> with a message quota of zero.\<close>

definition no_message_limits :: RateLimitConfig where
  "no_message_limits = test_limits\<lparr> MaxMessagesPerDay := 0 \<rparr>"

definition all_succeed :: effector where
  "all_succeed = (\<lambda>_. True)"


text \<open>The float64 nearest to 0.1, which is what the Go literal \<open>0.1\<close> denotes.\<close>

definition tenth :: real where
  "tenth = 3602879701896397 / 36028797018963968"

section \<open>Helper facts about the rate limiter\<close>

lemma list_of_length_5: "length ts = 5 \<Longrightarrow> \<exists>a b c d e. ts = [a, b, c, d, e]"
  by (auto simp: length_Suc_conv numeral_eq_Suc)

lemma checkReset_same_day:
  assumes "YearDay now = YearDay (lastReset r)" "Year now = Year (lastReset r)"
  shows "lastReset (checkReset now r) = lastReset r"
    and "k \<noteq> ''search'' \<Longrightarrow>
         count_of (actionCounts (checkReset now r)) k = count_of (actionCounts r) k"
  using assms by (simp_all add: checkReset_def Let_def count_of_def)

lemma checkReset_config: "rl_config (checkReset now r) = rl_config r"
  by (simp add: checkReset_def Let_def)

text \<open>
  Two rollover checks in a row, in the same calendar day and hour: the second one leaves
  every counter as the first one left it.
\<close>

lemma checkReset_twice:
  assumes "YearDay n2 = YearDay n1" "Year n2 = Year n1" "Hour n2 = Hour n1"
  shows "actionCounts (checkReset n2 (checkReset n1 r)) = actionCounts (checkReset n1 r)"
  using assms by (simp add: checkReset_def Let_def)

lemma five_records:
  assumes "length ts = 5"
    and r_def: "r = foldl (\<lambda>r t. RecordAction ''connection'' t r) (NewRateLimiter cfg tr ta g) ts"
  shows "count_of (actionCounts r) ''connection'' = 5"
    and "count_of (actionCounts r) ''message'' = 0"
    and "lastReset r = tr"
    and "rl_config r = cfg"
proof -
  from assms(1) obtain a b c d e where ts: "ts = [a, b, c, d, e]"
    using list_of_length_5 by blast
  show "count_of (actionCounts r) ''connection'' = 5"
    by (simp add: r_def ts RecordAction_def NewRateLimiter_def count_of_def wrap64_def)
  show "count_of (actionCounts r) ''message'' = 0"
    by (simp add: r_def ts RecordAction_def NewRateLimiter_def count_of_def wrap64_def)
  show "lastReset r = tr"
    by (simp add: r_def ts RecordAction_def NewRateLimiter_def)
  show "rl_config r = cfg"
    by (simp add: r_def ts RecordAction_def NewRateLimiter_def)
qed

lemma CanPerformAction_connection:
  "fst (CanPerformAction ''connection'' now r) =
     (count_of (actionCounts (checkReset now r)) ''connection''
        < MaxConnectionsPerDay (rl_config r))"
  by (auto simp add: CanPerformAction_def Let_def checkReset_config)

lemma CanPerformAction_message:
  "fst (CanPerformAction ''message'' now r) =
     (count_of (actionCounts (checkReset now r)) ''message'' < MaxMessagesPerDay (rl_config r))"
  by (auto simp add: CanPerformAction_def Let_def checkReset_config)

lemma CanPerformAction_state: "snd (CanPerformAction k now r) = checkReset now r"
  by (simp add: CanPerformAction_def Let_def split: option.splits)

lemma GetRemainingActions_state: "snd (GetRemainingActions k now r) = checkReset now r"
  by (simp add: GetRemainingActions_def Let_def split: option.splits)

lemma GetRemainingActions_connection:
  "fst (GetRemainingActions ''connection'' now r) =
     wrap64 (MaxConnectionsPerDay (rl_config r)
             - count_of (actionCounts (checkReset now r)) ''connection'')"
  by (simp add: GetRemainingActions_def Let_def checkReset_config)

lemma message_count_kept_or_zeroed:
  "count_of (actionCounts (checkReset now r)) ''message'' = count_of (actionCounts r) ''message''
   \<or> count_of (actionCounts (checkReset now r)) ''message'' = 0"
  by (simp add: checkReset_def Let_def count_of_def)

section \<open>The rollover check\<close>

text \<open>
  C1. The claim: the rollover check changes nothing when no day or hour boundary has
  been crossed; when the hour has advanced it zeroes the search counter and moves the
  reset marker, so that a search recorded after the last reset is never zeroed again
  within the same hour.

  The code, on the day of the last reset and in an hour other than the hour of the last
  reset (a limiter created at 09:00 and used at 10:05): the check zeroes the search
  counter, a search is recorded (the counter is 1), and the next check in the same hour
  zeroes the counter again. The reset marker is where it was: the hourly branch never
  moves it.
\<close>

theorem search_count_zeroed_within_hour:
  assumes "YearDay now = YearDay (lastReset r)" and "Year now = Year (lastReset r)"
    and "Hour now \<noteq> Hour (lastReset r)"
    and "YearDay now' = YearDay now" and "Year now' = Year now" and "Hour now' = Hour now"
  shows "count_of (actionCounts
            (RecordAction ''search'' now (checkReset now r))) ''search'' = 1
       \<and> count_of (actionCounts
            (checkReset now' (RecordAction ''search'' now (checkReset now r)))) ''search'' = 0
       \<and> lastReset (checkReset now' (RecordAction ''search'' now (checkReset now r)))
           = lastReset r"
  using assms
  by (simp add: checkReset_def RecordAction_def count_of_def wrap64_def Let_def)

theorem search_count_zeroed_within_hour_witness:
  "count_of (actionCounts
      (RecordAction ''search'' wed_10h
         (checkReset wed_10h (NewRateLimiter test_limits wed_9h wed_9h zero_rng)))) ''search'' = 1
   \<and> count_of (actionCounts
        (checkReset wed_10h
           (RecordAction ''search'' wed_10h
              (checkReset wed_10h (NewRateLimiter test_limits wed_9h wed_9h zero_rng)))))
        ''search'' = 0
   \<and> lastReset
        (checkReset wed_10h
           (RecordAction ''search'' wed_10h
              (checkReset wed_10h (NewRateLimiter test_limits wed_9h wed_9h zero_rng)))) = wed_9h"
proof -
  have l: "lastReset (NewRateLimiter test_limits wed_9h wed_9h zero_rng) = wed_9h"
    by (simp add: NewRateLimiter_def)
  have h: "YearDay wed_10h = YearDay wed_9h" "Year wed_10h = Year wed_9h"
    "Hour wed_10h \<noteq> Hour wed_9h"
    by (simp_all add: wed_9h_def wed_10h_def)
  show ?thesis
    using search_count_zeroed_within_hour
      [of wed_10h "NewRateLimiter test_limits wed_9h wed_9h zero_rng" wed_10h] l h
    by simp
qed

section \<open>Quota exhaustion\<close>

text \<open>
  C2, as amended. A limiter is created with \<open>MaxConnectionsPerDay = 5\<close>, and exactly
  five \<open>RecordAction("connection")\<close> calls follow, at any times. The queries are made
  on the day of the creation (no rollover boundary is crossed). Then
  \<open>CanPerformAction("connection")\<close> returns false, \<open>GetRemainingActions("connection")\<close>
  returns 0, and \<open>CanPerformAction("message")\<close> returns true exactly when
  \<open>MaxMessagesPerDay\<close> is positive: the five records did not touch the message
  counter, which is still 0.
\<close>

theorem five_connections_exhaust_quota:
  assumes limit: "MaxConnectionsPerDay cfg = 5"
    and fresh: "r0 = NewRateLimiter cfg tNew tNew' g"
    and five: "length ts = 5"
    and recorded: "r = foldl (\<lambda>r t. RecordAction ''connection'' t r) r0 ts"
    and day1: "YearDay n1 = YearDay tNew \<and> Year n1 = Year tNew"
    and day2: "YearDay n2 = YearDay tNew \<and> Year n2 = Year tNew"
  shows "fst (CanPerformAction ''connection'' n1 r) = False
       \<and> fst (GetRemainingActions ''connection'' n2
               (snd (CanPerformAction ''connection'' n1 r))) = 0
       \<and> fst (CanPerformAction ''message'' n3
               (snd (GetRemainingActions ''connection'' n2
                  (snd (CanPerformAction ''connection'' n1 r)))))
           = (0 < MaxMessagesPerDay cfg)"
proof -
  have r: "r = foldl (\<lambda>r t. RecordAction ''connection'' t r) (NewRateLimiter cfg tNew tNew' g) ts"
    using recorded fresh by simp
  note f = five_records [OF five r]
  let ?r1 = "checkReset n1 r"
  let ?r2 = "checkReset n2 ?r1"
  let ?r3 = "checkReset n3 ?r2"
  have c1: "count_of (actionCounts ?r1) ''connection'' = 5" and l1: "lastReset ?r1 = tNew"
    using checkReset_same_day [of n1 r] day1 f by simp_all
  have c2: "count_of (actionCounts ?r2) ''connection'' = 5"
    using checkReset_same_day [of n2 ?r1] day2 l1 c1 by simp
  have m1: "count_of (actionCounts ?r1) ''message'' = 0"
    using message_count_kept_or_zeroed [of n1 r] f by auto
  have m2: "count_of (actionCounts ?r2) ''message'' = 0"
    using message_count_kept_or_zeroed [of n2 ?r1] m1 by auto
  have m3: "count_of (actionCounts ?r3) ''message'' = 0"
    using message_count_kept_or_zeroed [of n3 ?r2] m2 by auto
  have A: "fst (CanPerformAction ''connection'' n1 r) = False"
    by (simp add: CanPerformAction_connection c1 f limit)
  have B: "fst (GetRemainingActions ''connection'' n2
                  (snd (CanPerformAction ''connection'' n1 r))) = 0"
    by (simp add: CanPerformAction_state GetRemainingActions_connection checkReset_config
        c2 f limit wrap64_def)
  have C: "fst (CanPerformAction ''message'' n3
            (snd (GetRemainingActions ''connection'' n2
               (snd (CanPerformAction ''connection'' n1 r)))))
           = (0 < MaxMessagesPerDay cfg)"
    by (simp add: CanPerformAction_state GetRemainingActions_state CanPerformAction_message
        checkReset_config m3 f)
  from A B C show ?thesis by blast
qed

theorem five_connections_exhaust_quota_witness:
  "MaxConnectionsPerDay test_limits = 5
   \<and> fst (CanPerformAction ''connection'' wed_10h
          (foldl (\<lambda>r t. RecordAction ''connection'' t r)
             (NewRateLimiter test_limits wed_9h wed_9h zero_rng)
             [wed_9h, wed_9h, wed_9h, wed_10h, wed_10h])) = False
   \<and> fst (GetRemainingActions ''connection'' wed_10h
          (snd (CanPerformAction ''connection'' wed_10h
             (foldl (\<lambda>r t. RecordAction ''connection'' t r)
                (NewRateLimiter test_limits wed_9h wed_9h zero_rng)
                [wed_9h, wed_9h, wed_9h, wed_10h, wed_10h])))) = 0
   \<and> fst (CanPerformAction ''message'' wed_10h
          (snd (GetRemainingActions ''connection'' wed_10h
             (snd (CanPerformAction ''connection'' wed_10h
                (foldl (\<lambda>r t. RecordAction ''connection'' t r)
                   (NewRateLimiter test_limits wed_9h wed_9h zero_rng)
                   [wed_9h, wed_9h, wed_9h, wed_10h, wed_10h])))))) = True"
proof -
  have lim: "MaxConnectionsPerDay test_limits = 5"
    by (simp add: test_limits_def)
  have msg: "0 < MaxMessagesPerDay test_limits"
    by (simp add: test_limits_def)
  have d: "YearDay wed_10h = YearDay wed_9h \<and> Year wed_10h = Year wed_9h"
    by (simp add: wed_10h_def wed_9h_def)
  have "fst (CanPerformAction ''connection'' wed_10h
          (foldl (\<lambda>r t. RecordAction ''connection'' t r)
             (NewRateLimiter test_limits wed_9h wed_9h zero_rng)
             [wed_9h, wed_9h, wed_9h, wed_10h, wed_10h])) = False
   \<and> fst (GetRemainingActions ''connection'' wed_10h
          (snd (CanPerformAction ''connection'' wed_10h
             (foldl (\<lambda>r t. RecordAction ''connection'' t r)
                (NewRateLimiter test_limits wed_9h wed_9h zero_rng)
                [wed_9h, wed_9h, wed_9h, wed_10h, wed_10h])))) = 0
   \<and> fst (CanPerformAction ''message'' wed_10h
          (snd (GetRemainingActions ''connection'' wed_10h
             (snd (CanPerformAction ''connection'' wed_10h
                (foldl (\<lambda>r t. RecordAction ''connection'' t r)
                   (NewRateLimiter test_limits wed_9h wed_9h zero_rng)
                   [wed_9h, wed_9h, wed_9h, wed_10h, wed_10h]))))))
        = (0 < MaxMessagesPerDay test_limits)"
    by (rule five_connections_exhaust_quota [OF lim refl _ refl d d]) simp
  then show ?thesis
    using lim msg by simp
qed

text \<open>
  The claim as stated fails: with \<open>MaxConnectionsPerDay = 5\<close> and a message quota of
  zero, which \<open>Validate\<close> accepts, \<open>CanPerformAction("message")\<close> returns false
  after the five records (as it does before them).
\<close>

theorem message_refused_at_zero_quota:
  "MaxConnectionsPerDay no_message_limits = 5
   \<and> Validate ((with_credentials DefaultConfig)\<lparr> RateLimits := no_message_limits \<rparr>) = Inr ()
   \<and> fst (CanPerformAction ''message'' wed_10h
          (snd (GetRemainingActions ''connection'' wed_10h
             (snd (CanPerformAction ''connection'' wed_10h
                (foldl (\<lambda>r t. RecordAction ''connection'' t r)
                   (NewRateLimiter no_message_limits wed_9h wed_9h zero_rng)
                   [wed_9h, wed_9h, wed_9h, wed_10h, wed_10h])))))) = False"
proof -
  have lim: "MaxConnectionsPerDay no_message_limits = 5"
    by (simp add: no_message_limits_def test_limits_def)
  have v: "Validate ((with_credentials DefaultConfig)\<lparr> RateLimits := no_message_limits \<rparr>) = Inr ()"
    by (simp add: Validate_def with_credentials_def DefaultConfig_def no_message_limits_def
        test_limits_def validLevels_def)
  have m: "fst (CanPerformAction ''message'' wed_10h
          (snd (GetRemainingActions ''connection'' wed_10h
             (snd (CanPerformAction ''connection'' wed_10h
                (foldl (\<lambda>r t. RecordAction ''connection'' t r)
                   (NewRateLimiter no_message_limits wed_9h wed_9h zero_rng)
                   [wed_9h, wed_9h, wed_9h, wed_10h, wed_10h])))))) = False"
    by (simp add: CanPerformAction_state GetRemainingActions_state CanPerformAction_message
        checkReset_config checkReset_def RecordAction_def NewRateLimiter_def count_of_def
        no_message_limits_def test_limits_def wed_9h_def wed_10h_def Let_def)
  from lim v m show ?thesis by blast
qed

section \<open>Operating hours\<close>

lemma operating_window_half_open:
  "Enabled cfg \<Longrightarrow> \<not> WorkDaysOnly cfg \<Longrightarrow>
   IsWithinOperatingHours cfg now = (StartHour cfg \<le> Hour now \<and> Hour now < EndHour cfg)"
  by (auto simp add: IsWithinOperatingHours_def)

text \<open>
  C3. The claim: with scheduling enabled, \<open>startHour = 0\<close>, \<open>endHour = 23\<close> and
  \<open>workDaysOnly\<close> off, \<open>IsWithinOperatingHours\<close> is true at every hour from 0 to 23.

  The code at the configuration of \<open>TestScheduler\<close> and a Wednesday at 23:30: the
  result is false, since 23 is not below \<open>endHour\<close>.
\<close>

theorem full_day_window_closed_at_23:
  "IsWithinOperatingHours test_schedule wed_23h = False"
  by (simp add: IsWithinOperatingHours_def test_schedule_def wed_23h_def)

section \<open>The delay between actions\<close>

lemma WaitForNextAction_equal_bounds:
  "MinDelayBetweenActions (rl_config r) = MaxDelayBetweenActions (rl_config r) \<Longrightarrow>
   WaitForNextAction now r = Inl (Panic ''invalid argument to Int63n'')"
  by (simp add: WaitForNextAction_def Int63n_def Let_def wrap64_def)

text \<open>
  C4. The claim: for every configuration accepted at load time, the operations of the
  rate limiter complete without a panic, and \<open>WaitForNextAction\<close> does not fail when
  \<open>MinDelayBetweenActions\<close> equals \<open>MaxDelayBetweenActions\<close>.

  The code at the default configuration with credentials and both delays 2000 ms: the
  configuration passes \<open>Validate\<close> and \<open>LoadConfig\<close>, and \<open>WaitForNextAction\<close>
  panics in \<open>Int63n(0)\<close>, at every time, on every state of the generator.
\<close>

theorem equal_delay_bounds_panic:
  "Validate equal_delays = Inr ()
   \<and> LoadConfig (Parsed equal_delays) (\<lambda>_. []) = Inr equal_delays
   \<and> MinDelayBetweenActions (RateLimits equal_delays)
       = MaxDelayBetweenActions (RateLimits equal_delays)
   \<and> WaitForNextAction now (NewRateLimiter (RateLimits equal_delays) t t' g)
       = Inl (Panic ''invalid argument to Int63n'')"
  by (simp add: Validate_def LoadConfig_def applyEnvOverrides_def equal_delays_def
      with_credentials_def DefaultConfig_def validLevels_def WaitForNextAction_def Int63n_def
      NewRateLimiter_def wrap64_def Let_def)

section \<open>Configuration validation\<close>

text \<open>
  C9, as amended. \<open>Validate\<close> accepts a configuration exactly when the e-mail and the
  password are not empty, \<open>MaxConnectionsPerDay\<close> is in 0..100, \<open>MaxMessagesPerDay\<close>
  is in 0..150, both schedule hours are in 0..23 and the log level is one of debug,
  info, warn, error. No delay bound takes part in the decision.
\<close>

theorem Validate_accepts_iff:
  "(Validate c = Inr ()) =
     (Email (LinkedIn c) \<noteq> [] \<and> Password (LinkedIn c) \<noteq> []
      \<and> 0 \<le> MaxConnectionsPerDay (RateLimits c) \<and> MaxConnectionsPerDay (RateLimits c) \<le> 100
      \<and> 0 \<le> MaxMessagesPerDay (RateLimits c) \<and> MaxMessagesPerDay (RateLimits c) \<le> 150
      \<and> 0 \<le> StartHour (Schedule c) \<and> StartHour (Schedule c) \<le> 23
      \<and> 0 \<le> EndHour (Schedule c) \<and> EndHour (Schedule c) \<le> 23
      \<and> validLevels (Level (Logging c)))"
  unfolding Validate_def by (simp add: not_less)

theorem Validate_accepts_iff_witness:
  "Validate (with_credentials DefaultConfig) = Inr ()"
  using Validate_accepts_iff [of "with_credentials DefaultConfig"]
  by (simp add: with_credentials_def DefaultConfig_def validLevels_def)

text \<open>
  The claim as stated fails: a configuration whose maximum delays are below the minimum
  delays passes \<open>Validate\<close> and \<open>LoadConfig\<close>.
\<close>

theorem inverted_delays_accepted:
  "MaxDelayBetweenActions (RateLimits inverted_delays)
     < MinDelayBetweenActions (RateLimits inverted_delays)
   \<and> TypingDelayMax (Stealth inverted_delays) < TypingDelayMin (Stealth inverted_delays)
   \<and> Validate inverted_delays = Inr ()
   \<and> LoadConfig (Parsed inverted_delays) (\<lambda>_. []) = Inr inverted_delays"
  by (simp add: Validate_def LoadConfig_def applyEnvOverrides_def inverted_delays_def
      with_credentials_def DefaultConfig_def validLevels_def Let_def)

section \<open>The hardware concurrency value\<close>

lemma mod4_cases: "int n mod 4 = 0 \<or> int n mod 4 = 1 \<or> int n mod 4 = 2 \<or> int n mod 4 = 3"
proof -
  have "0 \<le> int n mod 4" "int n mod 4 < 4" by simp_all
  then show ?thesis by arith
qed

lemma core_strings:
  "string_of_rune (wrap32 (48 + cores ! nat 0)) = ''4''"
  "string_of_rune (wrap32 (48 + cores ! nat 1)) = ''8''"
  "string_of_rune (wrap32 (48 + cores ! nat 2)) = ''<''"
  "string_of_rune (wrap32 (48 + cores ! nat 3)) = ''@''"
  by (simp_all add: cores_def string_of_rune_def wrap32_def char_of_eq_iff)

text \<open>Whatever the generator draws, the value is one of these four strings.\<close>

lemma hardware_concurrency_values:
  "\<exists>v g'. randomHardwareConcurrency g = Inr (v, g') \<and> v \<in> {''4'', ''8'', ''<'', ''@''}"
proof -
  let ?k = "int (g 0) mod 4"
  have r: "randomHardwareConcurrency g =
      Inr (string_of_rune (wrap32 (48 + cores ! nat ?k)), rng_next g)"
    by (simp add: randomHardwareConcurrency_def Intn_def cores_def)
  have "string_of_rune (wrap32 (48 + cores ! nat ?k)) \<in> {''4'', ''8'', ''<'', ''@''}"
    using mod4_cases [of "g 0"] core_strings by (elim disjE) (simp_all only: insert_iff simp_thms)
  with r show ?thesis by blast
qed

text \<open>
  C7. The claim: the hardware concurrency value spliced into the masking script is
  always the decimal representation of 4, 8, 12 or 16.

  The code when the generator draws index 2 (the entry 12): the value is the one
  character string \<open><\<close>, the code point \<open>'0' + 12\<close>, and the script reads
  \<open>get: () => <\<close>.
\<close>

theorem hardware_concurrency_twelve:
  "randomHardwareConcurrency draw2 = Inr (''<'', rng_next draw2)
   \<and> ''<'' \<notin> {''4'', ''8'', ''12'', ''16''}
   \<and> hardwareConcurrencyScript draw2 =
       Inr (''Object.defineProperty(navigator, 'hardwareConcurrency', { get: () => < });'',
            rng_next draw2)"
  by (simp add: hardwareConcurrencyScript_def randomHardwareConcurrency_def Intn_def cores_def
      draw2_def string_of_rune_def wrap32_def char_of_eq_iff)

section \<open>The typing simulator\<close>

lemma adjacent_nonempty: "adjacent_of r = Some adj \<Longrightarrow> adj \<noteq> []"
  by (auto simp add: adjacent_of_def adjacentKeys_def rune_of_def split: if_splits)

lemma Intn_pos: "0 < n \<Longrightarrow> Intn g n = Inr (int (g 0) mod n, rng_next g)"
  by (simp add: Intn_def)

lemma getAdjacentKey_total: "\<exists>w g'. getAdjacentKey g c = Inr (w, g')"
proof (cases "adjacent_of (if c \<ge> 65 \<and> c \<le> 90 then wrap32 (c + 32) else c)")
  case None
  then show ?thesis by (simp add: getAdjacentKey_def Let_def)
next
  case (Some adj)
  then have "adj \<noteq> []" by (rule adjacent_nonempty)
  then have "0 < int (length adj)" by simp
  then show ?thesis using Some
    by (simp add: getAdjacentKey_def Let_def Intn_pos ebind_def)
qed

lemma getAdjacentKey_outside:
  "outside_table c \<Longrightarrow> getAdjacentKey g c = Inr (c, g)"
  by (simp add: getAdjacentKey_def outside_table_def Let_def)

lemma simulateMistake_cases:
  assumes "\<forall>i. io i"
  shows "\<exists>mistake g' io'. simulateMistake cfg c g io = Inr (mistake, g', io') \<and> (\<forall>i. io' i)
           \<and> (mistake = [] \<or> (\<exists>w a b. mistake = [WrongInput w, Sleep a, PressBackspace, Sleep b]
                  \<and> (outside_table c \<longrightarrow> w = c)))"
proof (cases "TypingMistakeRate cfg > 0 \<and> fst (Float64 g) < TypingMistakeRate cfg")
  case False
  then show ?thesis using assms
    by (auto simp add: simulateMistake_def Let_def split: prod.splits)
next
  case True
  obtain f g1 where F: "Float64 g = (f, g1)" by (cases "Float64 g")
  obtain w g2 where W: "getAdjacentKey g1 c = Inr (w, g2)"
    using getAdjacentKey_total by blast
  have wc: "outside_table c \<longrightarrow> w = c"
    using W getAdjacentKey_outside [of c g1] by auto
  have io0: "io 0" using assms by simp
  have next_ok: "\<forall>i. effector_next io i" using assms by (simp add: effector_next_def)
  have "simulateMistake cfg c g io =
      Inr ([WrongInput w, Sleep (wrap64 (wrap64 (100 + int (g2 0) mod 200) * 1000000)),
            PressBackspace,
            Sleep (wrap64 (wrap64 (50 + int (rng_next g2 0) mod 100) * 1000000))],
           rng_next (rng_next g2), effector_next io)"
    using True F W io0 by (simp add: simulateMistake_def Let_def ebind_def Intn_pos)
  with wc next_ok show ?thesis by blast
qed

lemma delay_draw:
  "\<exists>delay g3. (if f < (0.05::real)
          then ebind (Intn g2 400)
                 (\<lambda>(x, g3). Inr (wrap64 (wrap64 (m + d) + wrap64 (200 + x)), g3))
          else Inr (wrap64 (m + d), g2)) = Inr (delay, g3)"
  by (simp add: Intn_pos ebind_def)

lemma correct_inputs_block:
  "mistake = [] \<or> mistake = [WrongInput w, Sleep a, PressBackspace, Sleep b] \<Longrightarrow>
   correct_inputs (mistake @ [CorrectInput c, Sleep d] @ es) = c # correct_inputs es"
  by auto

lemma HumanType_run:
  assumes pos: "0 < wrap64 (TypingDelayMax cfg - TypingDelayMin cfg)"
  shows "(\<forall>i. io i) \<Longrightarrow>
         \<exists>events g' io'. HumanType cfg runes g io = Inr (events, g', io')
           \<and> correct_inputs events = runes
           \<and> (\<forall>(w, c) \<in> set (mistakes_of events). outside_table c \<longrightarrow> w = c)"
proof (induction runes arbitrary: g io)
  case Nil
  then show ?case by simp
next
  case (Cons char rest)
  let ?d = "int (g 0) mod wrap64 (TypingDelayMax cfg - TypingDelayMin cfg)"
  let ?g1 = "rng_next g"
  have I: "Intn g (wrap64 (TypingDelayMax cfg - TypingDelayMin cfg)) = Inr (?d, ?g1)"
    using pos by (rule Intn_pos)
  obtain f g2 where F: "Float64 ?g1 = (f, g2)" by (cases "Float64 ?g1")
  obtain delay g3 where D: "(if f < (0.05::real)
          then ebind (Intn g2 400)
                 (\<lambda>(x, g3). Inr (wrap64 (wrap64 (TypingDelayMin cfg + ?d) + wrap64 (200 + x)), g3))
          else Inr (wrap64 (TypingDelayMin cfg + ?d), g2)) = Inr (delay, g3)"
    using delay_draw by blast
  obtain mistake g4 io1 where M: "simulateMistake cfg char g3 io = Inr (mistake, g4, io1)"
    and io1: "\<forall>i. io1 i"
    and shape: "mistake = [] \<or> (\<exists>w a b. mistake = [WrongInput w, Sleep a, PressBackspace, Sleep b]
                  \<and> (outside_table char \<longrightarrow> w = char))"
    using simulateMistake_cases [OF Cons.prems, of cfg char g3] by blast
  have "\<forall>i. effector_next io1 i" using io1 by (simp add: effector_next_def)
  from Cons.IH [OF this, of g4] obtain events g' io' where
    R: "HumanType cfg rest g4 (effector_next io1) = Inr (events, g', io')"
    and C: "correct_inputs events = rest"
    and W: "\<forall>(w, c) \<in> set (mistakes_of events). outside_table c \<longrightarrow> w = c"
    by blast
  let ?out = "mistake @ [CorrectInput char, Sleep (wrap64 (delay * 1000000))] @ events"
  have H: "HumanType cfg (char # rest) g io = Inr (?out, g', io')"
    using I F D M R io1 by (simp add: ebind_def)
  have C': "correct_inputs ?out = char # rest"
    using shape C correct_inputs_block [of mistake _ _ _ char _ events] by auto
  have W': "\<forall>(w, c) \<in> set (mistakes_of ?out). outside_table c \<longrightarrow> w = c"
  proof -
    from shape show ?thesis
    proof
      assume "mistake = []"
      then show ?thesis using W by simp
    next
      assume "\<exists>w a b. mistake = [WrongInput w, Sleep a, PressBackspace, Sleep b]
                  \<and> (outside_table char \<longrightarrow> w = char)"
      then obtain w a b where m: "mistake = [WrongInput w, Sleep a, PressBackspace, Sleep b]"
        and wc: "outside_table char \<longrightarrow> w = char" by blast
      show ?thesis using W wc by (simp add: m)
    qed
  qed
  from H C' W' show ?case by blast
qed

lemma rng_next_zero: "rng_next zero_rng = zero_rng"
  by (simp add: rng_next_def zero_rng_def)

lemma effector_next_all: "effector_next all_succeed = all_succeed"
  by (simp add: effector_next_def all_succeed_def)

lemma Float64_zero: "Float64 zero_rng = (0, zero_rng)"
  by (simp add: Float64_def rng_next_zero) (simp add: zero_rng_def)

lemma Intn_zero: "0 < n \<Longrightarrow> Intn zero_rng n = Inr (0, zero_rng)"
  by (simp add: Intn_def rng_next_zero) (simp add: zero_rng_def)

lemma outside_table_7: "outside_table 55"
  by (simp add: outside_table_def adjacent_of_def adjacentKeys_def rune_of_def)

lemma simulateMistake_fires:
  assumes "0 < TypingMistakeRate cfg" and "fst (Float64 g) < TypingMistakeRate cfg"
    and "io 0" and "outside_table c"
  shows "\<exists>a b g'. simulateMistake cfg c g io =
           Inr ([WrongInput c, Sleep a, PressBackspace, Sleep b], g', effector_next io)"
proof -
  obtain f g1 where F: "Float64 g = (f, g1)" by (cases "Float64 g")
  have W: "getAdjacentKey g1 c = Inr (c, g1)"
    using assms(4) by (rule getAdjacentKey_outside)
  have "simulateMistake cfg c g io =
      Inr ([WrongInput c, Sleep (wrap64 (wrap64 (100 + int (g1 0) mod 200) * 1000000)),
            PressBackspace,
            Sleep (wrap64 (wrap64 (50 + int (rng_next g1 0) mod 100) * 1000000))],
           rng_next (rng_next g1), effector_next io)"
    using assms(1,2,3) F W by (simp add: simulateMistake_def Let_def ebind_def Intn_pos)
  then show ?thesis by blast
qed

lemma delay_draw_state:
  assumes "Float64 (rng_next g) = (f, g2)"
  shows "\<exists>delay. (if f < (0.05::real)
          then ebind (Intn g2 400)
                 (\<lambda>(x, g3). Inr (wrap64 (wrap64 (m + d) + wrap64 (200 + x)), g3))
          else Inr (wrap64 (m + d), g2)) = Inr (delay, mistake_draw_state g)"
  using assms by (simp add: mistake_draw_state_def Intn_pos ebind_def)

lemma HumanType_mistake_fires:
  assumes pos: "0 < wrap64 (TypingDelayMax cfg - TypingDelayMin cfg)"
    and io: "\<forall>i. io i"
    and out: "outside_table c"
    and rate: "0 < TypingMistakeRate cfg"
    and fires: "fst (Float64 (mistake_draw_state g)) < TypingMistakeRate cfg"
  shows "\<exists>a b d tail g' io'. HumanType cfg (c # rest) g io =
           Inr ([WrongInput c, Sleep a, PressBackspace, Sleep b, CorrectInput c, Sleep d] @ tail,
                g', io')"
proof -
  let ?d = "int (g 0) mod wrap64 (TypingDelayMax cfg - TypingDelayMin cfg)"
  have I: "Intn g (wrap64 (TypingDelayMax cfg - TypingDelayMin cfg)) = Inr (?d, rng_next g)"
    using pos by (rule Intn_pos)
  obtain f g2 where F: "Float64 (rng_next g) = (f, g2)" by (cases "Float64 (rng_next g)")
  obtain delay where D: "(if f < (0.05::real)
          then ebind (Intn g2 400)
                 (\<lambda>(x, g3). Inr (wrap64 (wrap64 (TypingDelayMin cfg + ?d) + wrap64 (200 + x)), g3))
          else Inr (wrap64 (TypingDelayMin cfg + ?d), g2)) = Inr (delay, mistake_draw_state g)"
    using delay_draw_state [OF F] by blast
  have io0: "io 0" using io by simp
  obtain a b g4 where M: "simulateMistake cfg c (mistake_draw_state g) io =
      Inr ([WrongInput c, Sleep a, PressBackspace, Sleep b], g4, effector_next io)"
    using simulateMistake_fires [where io = io, OF rate fires io0 out] by blast
  have next_ok: "\<forall>i. effector_next io i" using io by (simp add: effector_next_def)
  then have next2: "\<forall>i. effector_next (effector_next io) i" by (simp add: effector_next_def)
  obtain tail g' io' where
    R: "HumanType cfg rest g4 (effector_next (effector_next io)) = Inr (tail, g', io')"
    using HumanType_run [OF pos next2, of rest g4] by blast
  have "HumanType cfg (c # rest) g io =
      Inr ([WrongInput c, Sleep a, PressBackspace, Sleep b]
           @ [CorrectInput c, Sleep (wrap64 (delay * 1000000))] @ tail, g', io')"
    using I F D M R next_ok by (simp add: ebind_def)
  then show ?thesis by auto
qed

text \<open>
  C6, as amended. For every text and every mistake rate, when the difference
  \<open>TypingDelayMax - TypingDelayMin\<close>, as the program computes it in 64 bits, is
  positive, and every \<open>Input\<close> call succeeds, \<open>HumanType\<close> returns, and the
  characters it typed as the text are exactly the characters (runes) of the text, in
  order; their number is the number of runes. For a character outside the adjacency
  table every simulated mistake of the run types the character itself as the wrong
  character. The mistake branch is not skipped for such a character: whenever the mistake
  rate is positive and the mistake draw is below it, the character is typed, deleted
  with Backspace and typed again.
\<close>

theorem typing_emits_text:
  assumes "0 < wrap64 (TypingDelayMax cfg - TypingDelayMin cfg)"
    and "\<forall>i. io i"
  shows "(\<exists>events g' io'. HumanType cfg runes g io = Inr (events, g', io')
            \<and> correct_inputs events = runes
            \<and> length (correct_inputs events) = length runes
            \<and> (\<forall>(w, c) \<in> set (mistakes_of events). outside_table c \<longrightarrow> w = c))
       \<and> (outside_table c \<and> 0 < TypingMistakeRate cfg
            \<and> fst (Float64 (mistake_draw_state g)) < TypingMistakeRate cfg
          \<longrightarrow> (\<exists>a b d tail g' io'. HumanType cfg (c # rest) g io =
                 Inr ([WrongInput c, Sleep a, PressBackspace, Sleep b, CorrectInput c, Sleep d]
                      @ tail, g', io')))"
proof
  from HumanType_run [OF assms, of runes g]
  show "\<exists>events g' io'. HumanType cfg runes g io = Inr (events, g', io')
            \<and> correct_inputs events = runes
            \<and> length (correct_inputs events) = length runes
            \<and> (\<forall>(w, c) \<in> set (mistakes_of events). outside_table c \<longrightarrow> w = c)"
    by auto
  show "outside_table c \<and> 0 < TypingMistakeRate cfg
            \<and> fst (Float64 (mistake_draw_state g)) < TypingMistakeRate cfg
          \<longrightarrow> (\<exists>a b d tail g' io'. HumanType cfg (c # rest) g io =
                 Inr ([WrongInput c, Sleep a, PressBackspace, Sleep b, CorrectInput c, Sleep d]
                      @ tail, g', io'))"
    using HumanType_mistake_fires [OF assms, of c g rest] by blast
qed

theorem typing_emits_text_witness:
  "(\<exists>events g' io'. HumanType (Stealth DefaultConfig) [97, 55] zero_rng all_succeed
       = Inr (events, g', io')
     \<and> correct_inputs events = [97, 55])
   \<and> (\<exists>a b d tail g' io'. HumanType (Stealth DefaultConfig) [55, 97] zero_rng all_succeed =
        Inr ([WrongInput 55, Sleep a, PressBackspace, Sleep b, CorrectInput 55, Sleep d] @ tail,
             g', io'))"
proof -
  have a: "0 < wrap64 (TypingDelayMax (Stealth DefaultConfig) - TypingDelayMin (Stealth DefaultConfig))"
    by (simp add: DefaultConfig_def wrap64_def)
  have b: "\<forall>i. all_succeed i" by (simp add: all_succeed_def)
  have s: "mistake_draw_state zero_rng = zero_rng"
    by (simp add: mistake_draw_state_def rng_next_zero Float64_zero)
  have r: "0 < TypingMistakeRate (Stealth DefaultConfig)"
    "fst (Float64 (mistake_draw_state zero_rng)) < TypingMistakeRate (Stealth DefaultConfig)"
    by (simp_all add: s Float64_zero DefaultConfig_def)
  from typing_emits_text [OF a b, of "[97, 55]" zero_rng 55 "[97]"] outside_table_7 r
  show ?thesis by blast
qed

text \<open>
  The claim as stated fails. With the default configuration and a generator that draws
  zeros, the digit 7 is typed, deleted with Backspace and typed again: a deletion event
  is emitted for a character outside the table. And with \<open>TypingDelayMax\<close> below
  \<open>TypingDelayMin\<close> the first character already panics in \<open>Intn\<close>, whatever
  the text and the mistake rate.
\<close>

theorem digit_typed_deleted_retyped:
  "outside_table 55
   \<and> HumanType (Stealth DefaultConfig) [55] zero_rng all_succeed
       = Inr ([WrongInput 55, Sleep 100000000, PressBackspace, Sleep 50000000,
               CorrectInput 55, Sleep 250000000], zero_rng, all_succeed)
   \<and> HumanType (Stealth inverted_delays) [97] zero_rng all_succeed
       = Inl (Panic ''invalid argument to Intn'')"
proof -
  have g: "getAdjacentKey zero_rng 55 = Inr (55, zero_rng)"
    using outside_table_7 by (rule getAdjacentKey_outside)
  have v: "TypingDelayMin (Stealth DefaultConfig) = 50"
    "TypingDelayMax (Stealth DefaultConfig) = 200"
    "TypingMistakeRate (Stealth DefaultConfig) = 0.02"
    by (simp_all add: DefaultConfig_def)
  have ok: "\<And>i. all_succeed i = True" by (simp add: all_succeed_def)
  have m: "simulateMistake (Stealth DefaultConfig) 55 zero_rng all_succeed
      = Inr ([WrongInput 55, Sleep 100000000, PressBackspace, Sleep 50000000],
             zero_rng, all_succeed)"
    by (simp add: simulateMistake_def v Float64_zero g Intn_zero ebind_def effector_next_all
        wrap64_def ok)
  have h: "HumanType (Stealth DefaultConfig) [55] zero_rng all_succeed
       = Inr ([WrongInput 55, Sleep 100000000, PressBackspace, Sleep 50000000,
               CorrectInput 55, Sleep 250000000], zero_rng, all_succeed)"
    by (simp add: v Float64_zero Intn_zero ebind_def m effector_next_all wrap64_def ok)
  have p: "HumanType (Stealth inverted_delays) [97] zero_rng all_succeed
       = Inl (Panic ''invalid argument to Intn'')"
    by (simp add: inverted_delays_def with_credentials_def DefaultConfig_def wrap64_def
        Intn_def ebind_def)
  from outside_table_7 h p show ?thesis by blast
qed

section \<open>The movement delay\<close>











section \<open>The overshoot tail\<close>

lemma fl_binade:
  assumes "2 powi e \<le> \<bar>x\<bar>" and "\<bar>x\<bar> < 2 powi (e + 1)" and "- 1022 \<le> e"
  shows "fl x = real_of_int (round_even (x / 2 powi (e - 52))) * 2 powi (e - 52)"
proof -
  have "(0::real) < 2 powi e" by (simp add: zero_less_power_int)
  then have pos: "0 < \<bar>x\<bar>" using assms(1) by linarith
  have p1: "(2::real) powr real_of_int e = 2 powi e"
    by (simp add: powr_real_of_int' power_int_def)
  have p2: "(2::real) powr (real_of_int e + 1) = 2 powi (e + 1)"
    using powr_real_of_int' [of 2 "e + 1"] by (simp add: add.commute)
  have "\<lfloor>log 2 \<bar>x\<bar>\<rfloor> = e"
    using floor_log_eq_powr_iff [of "\<bar>x\<bar>" 2 e] pos assms(1,2) p1 p2 by simp
  then show ?thesis using pos assms(3) by (simp add: fl_def Let_def)
qed

lemma fl_zero: "fl 0 = 0"
  by (simp add: fl_def)

lemma fl_small_ints: "fl 1 = 1" "fl 3 = 3" "fl 5 = 5" "fl (- 5) = - 5"
proof -
  have "fl 1 = real_of_int (round_even (1 / 2 powi (0 - 52))) * 2 powi (0 - 52)"
    by (rule fl_binade) (simp_all add: power_int_def)
  then show "fl 1 = 1" by (simp add: power_int_def power_divide round_even_def Let_def)
  have "fl 3 = real_of_int (round_even (3 / 2 powi (1 - 52))) * 2 powi (1 - 52)"
    by (rule fl_binade) (simp_all add: power_int_def)
  then show "fl 3 = 3" by (simp add: power_int_def power_divide round_even_def Let_def)
  have "fl 5 = real_of_int (round_even (5 / 2 powi (2 - 52))) * 2 powi (2 - 52)"
    by (rule fl_binade) (simp_all add: power_int_def)
  then show "fl 5 = 5" by (simp add: power_int_def power_divide round_even_def Let_def)
  have "fl (- 5) = real_of_int (round_even (- 5 / 2 powi (2 - 52))) * 2 powi (2 - 52)"
    by (rule fl_binade) (simp_all add: power_int_def)
  then show "fl (- 5) = - 5" by (simp add: power_int_def power_divide round_even_def Let_def)
qed

lemma fl_tenth: "fl (1 / 10) = tenth"
proof -
  have "fl (1 / 10) = real_of_int (round_even ((1 / 10) / 2 powi (- 4 - 52))) * 2 powi (- 4 - 52)"
    by (rule fl_binade) (simp_all add: power_int_def power_divide)
  also have "\<dots> = 3602879701896397 / 36028797018963968"
    by (simp add: power_int_def power_divide round_even_def Let_def)
  finally show ?thesis by (simp add: tenth_def)
qed

lemma fl_overshoot: "fl (tenth - 5) = - (2758454771764429 / 562949953421312)"
proof -
  have "fl (tenth - 5) = real_of_int (round_even ((tenth - 5) / 2 powi (2 - 52))) * 2 powi (2 - 52)"
    by (rule fl_binade) (simp_all add: power_int_def tenth_def)
  then show ?thesis by (simp add: tenth_def power_int_def power_divide round_even_def Let_def)
qed

lemma fl_back: "fl (tenth + 2758454771764429 / 562949953421312) = 5"
proof -
  have "fl (tenth + 2758454771764429 / 562949953421312)
      = real_of_int (round_even ((tenth + 2758454771764429 / 562949953421312) / 2 powi (2 - 52)))
        * 2 powi (2 - 52)"
    by (rule fl_binade) (simp_all add: power_int_def tenth_def)
  then show ?thesis by (simp add: tenth_def power_int_def power_divide round_even_def Let_def)
qed

lemma fl_landing2:
  "fl (56294995342131 / 562949953421312) = 56294995342131 / 562949953421312"
proof -
  have "fl (56294995342131 / 562949953421312)
      = real_of_int (round_even ((56294995342131 / 562949953421312) / 2 powi (- 4 - 52)))
        * 2 powi (- 4 - 52)"
    by (rule fl_binade) (simp_all add: power_int_def power_divide)
  then show ?thesis by (simp add: power_int_def power_divide round_even_def Let_def)
qed

lemma randomSign_zero: "randomSign zero_rng = (- 1, zero_rng)"
  by (simp add: randomSign_def Float64_zero)

lemma overshoot_point:
  "fadd tenth (fmul (fadd (fmul 0 10) 5) (- 1)) = - (2758454771764429 / 562949953421312)"
  by (simp add: fadd_def fmul_def fl_small_ints fl_overshoot fl_zero)

lemma last_step_parameter:
  "fdiv (fl (real_of_int (wrap64 (int 2 + 1)))) (fl (real_of_int 3)) = 1"
  by (simp add: wrap64_def fdiv_def fl_small_ints)

lemma correction_lands:
  "fadd (- (2758454771764429 / 562949953421312))
        (fmul (fsub tenth (- (2758454771764429 / 562949953421312))) 1)
     = 56294995342131 / 562949953421312"
proof -
  have 1: "fsub tenth (- (2758454771764429 / 562949953421312)) = 5"
    by (simp add: fsub_def fl_back)
  have 2: "fmul 5 1 = 5" by (simp add: fmul_def fl_small_ints)
  have 3: "fadd (- (2758454771764429 / 562949953421312)) 5 = 56294995342131 / 562949953421312"
    by (simp add: fadd_def fl_landing2)
  show ?thesis by (simp only: 1 2 3)
qed

lemma wrap64_3: "wrap64 3 = 3"
  by (simp add: wrap64_def)

lemma upt_0_3: "[0 ..< 3] = [0, 1, 2]"
  by code_simp

lemma addOvershoot_zero_draws:
  "addOvershoot zero_rng points tenth tenth =
      Inr (points @ [\<lparr> X = fadd tenth (fmul (fadd (fmul 0 10) 5) (- 1)),
                        Y = fadd tenth (fmul (fadd (fmul 0 10) 5) (- 1)) \<rparr>]
           @ map (\<lambda>i. let t = fdiv (fl (real_of_int (wrap64 (int i + 1)))) (fl (real_of_int 3))
                in \<lparr> X = fadd (fadd tenth (fmul (fadd (fmul 0 10) 5) (- 1)))
                           (fmul (fsub tenth (fadd tenth (fmul (fadd (fmul 0 10) 5) (- 1)))) t),
                     Y = fadd (fadd tenth (fmul (fadd (fmul 0 10) 5) (- 1)))
                           (fmul (fsub tenth (fadd tenth (fmul (fadd (fmul 0 10) 5) (- 1)))) t) \<rparr>)
               [0, 1, 2], zero_rng)"
  by (simp add: addOvershoot_def Float64_zero randomSign_zero Intn_zero ebind_def wrap64_3
      upt_0_3 del: map_eq_conv)

text \<open>
  The curve itself meets its end points exactly: at \<open>t = 0\<close> it is the first control
  point and at \<open>t = 1\<close> the last one, for coordinates that are float64 values.
\<close>

lemma cubicBezier_start:
  assumes "fl (X p0) = X p0" and "fl (Y p0) = Y p0"
  shows "cubicBezier 0 p0 p1 p2 p3 = p0"
  using assms
  by (simp add: cubicBezier_def Let_def fadd_def fsub_def fmul_def fl_zero fl_small_ints)

lemma cubicBezier_end:
  assumes "fl (X p3) = X p3" and "fl (Y p3) = Y p3"
  shows "cubicBezier 1 p0 p1 p2 p3 = p3"
  using assms
  by (simp add: cubicBezier_def Let_def fadd_def fsub_def fmul_def fl_zero fl_small_ints)

text \<open>
  C5. The claim: the last point of the motion plan equals the target exactly, also when
  an overshoot-and-correction tail is appended.

  The code at the target (0.1, 0.1), on a generator that draws zeros (overshoot 5.0 with
  sign -1 on both axes, three correction steps), whatever the path the tail is appended
  to: the overshoot point is \<open>0.1 - 5\<close> rounded, -4.9000000000000004; the last
  correction step computes \<open>o + (target - o) * 1\<close>, where \<open>target - o\<close> rounds to
  5.0, and lands on 0.09999999999999964, which is not the target.
\<close>

theorem overshoot_tail_misses_target:
  "\<exists>pts. addOvershoot zero_rng points tenth tenth = Inr (pts, zero_rng)
     \<and> last pts = \<lparr> X = 56294995342131 / 562949953421312,
                     Y = 56294995342131 / 562949953421312 \<rparr>
     \<and> last pts \<noteq> \<lparr> X = tenth, Y = tenth \<rparr>"
proof -
  have ne: "(56294995342131 / 562949953421312 :: real) \<noteq> tenth"
    by (simp add: tenth_def)
  have l: "(let t = fdiv (fl (real_of_int (wrap64 (int 2 + 1)))) (fl (real_of_int 3))
                in \<lparr> X = fadd (fadd tenth (fmul (fadd (fmul 0 10) 5) (- 1)))
                           (fmul (fsub tenth (fadd tenth (fmul (fadd (fmul 0 10) 5) (- 1)))) t),
                     Y = fadd (fadd tenth (fmul (fadd (fmul 0 10) 5) (- 1)))
                           (fmul (fsub tenth (fadd tenth (fmul (fadd (fmul 0 10) 5) (- 1)))) t) \<rparr>)
      = \<lparr> X = 56294995342131 / 562949953421312, Y = 56294995342131 / 562949953421312 \<rparr>"
    by (simp only: Let_def last_step_parameter overshoot_point correction_lands)
  show ?thesis
    unfolding addOvershoot_zero_draws
    using l ne by simp
qed

section \<open>Unknown categories\<close>

text \<open>
  C10. For every category string outside connection, message, profile_view and search,
  and for every state of the limiter and every time of the call, \<open>CanPerformAction\<close>
  returns true and \<open>GetRemainingActions\<close> returns the constant 999.
\<close>

theorem unknown_category_permitted:
  assumes "actionType \<notin> {''connection'', ''message'', ''profile_view'', ''search''}"
  shows "fst (CanPerformAction actionType now r) = True
       \<and> fst (GetRemainingActions actionType now r) = 999"
  using assms by (simp add: CanPerformAction_def GetRemainingActions_def Let_def)

theorem unknown_category_permitted_witness:
  "''like'' \<notin> {''connection'', ''message'', ''profile_view'', ''search''}
   \<and> fst (CanPerformAction ''like'' wed_10h
            (NewRateLimiter test_limits wed_9h wed_9h zero_rng)) = True
   \<and> fst (GetRemainingActions ''like'' wed_10h
            (NewRateLimiter test_limits wed_9h wed_9h zero_rng)) = 999"
  using unknown_category_permitted
    [of "''like''" wed_10h "NewRateLimiter test_limits wed_9h wed_9h zero_rng"]
  by simp

end
